theory Spec2Isabelle
  imports Main "HOL-Library.Multiset"
begin

section \<open>Contract verification utilities (ui/contractVerification/utils.ts)\<close>

subsection \<open>JavaScript values\<close>

text \<open>
  The values that occur in the default-value table and in the bodies the builder returns.
  Numbers are the integer-valued ones (run counts, indices). An object is the list of its
  own properties in creation order; every statement below reads an object through
  \<open>map_of\<close>, so the order in which JavaScript enumerates index-like names plays no role.
\<close>

datatype jsvalue =
    JUndefined
  | JNull
  | JBool bool
  | JNum int
  | JStr string
  | JArr "jsvalue list"
  | JObj "(string \<times> jsvalue) list"

text \<open>Decimal rendering of an index or a number, as in a template literal or \<open>String(n)\<close>.\<close>

definition digit_char :: "nat \<Rightarrow> char" where
  "digit_char d = char_of (48 + d)"

function string_of_nat :: "nat \<Rightarrow> string" where
  "string_of_nat n =
     (if n < 10 then [digit_char n] else string_of_nat (n div 10) @ [digit_char (n mod 10)])"
  by pat_completeness auto
termination
  by (relation "measure (\<lambda>n. n)") auto

definition string_of_int :: "int \<Rightarrow> string" where
  "string_of_int i = (if i < 0 then CHR ''-'' # string_of_nat (nat (- i)) else string_of_nat (nat i))"

text \<open>\<open>Array.prototype.join\<close> on a list of strings.\<close>

fun join :: "string \<Rightarrow> string list \<Rightarrow> string" where
  "join sep [] = []"
| "join sep [x] = x"
| "join sep (x # y # ys) = x @ sep @ join sep (y # ys)"

text \<open>
  \<open>String(v)\<close>, the coercion \<open>FormData.set\<close> applies to a value that is not a file:
  \<open>undefined\<close> becomes the text \<open>undefined\<close>, an integer its decimal numeral (as
  JavaScript prints it below \<open>10^21\<close>), an array joins its elements with a comma
  (\<open>undefined\<close> and \<open>null\<close> elements as the empty text), a plain object is
  \<open>[object Object]\<close>.
\<close>

fun String_js :: "jsvalue \<Rightarrow> string" where
  "String_js JUndefined = ''undefined''"
| "String_js JNull = ''null''"
| "String_js (JBool b) = (if b then ''true'' else ''false'')"
| "String_js (JNum n) = string_of_int n"
| "String_js (JStr s) = s"
| "String_js (JArr vs) =
     join '','' (map (\<lambda>v. if v = JUndefined \<or> v = JNull then [] else String_js v) vs)"
| "String_js (JObj ps) = ''[object Object]''"

subsection \<open>The verification-method registry\<close>

definition SUPPORTED_VERIFICATION_METHODS :: "string list" where
  "SUPPORTED_VERIFICATION_METHODS =
     [''flattened-code'', ''standard-input'', ''sourcify'', ''multi-part'', ''vyper-code'',
      ''vyper-multi-part'']"

definition METHOD_LABELS :: "(string \<times> string) list" where
  "METHOD_LABELS =
     [(''flattened-code'', ''Solidity (Flattened source code)''),
      (''standard-input'', ''Solidity (Standard JSON input)''),
      (''sourcify'', ''Solidity (Sourcify)''),
      (''multi-part'', ''Solidity (Multi-part files)''),
      (''vyper-code'', ''Vyper (Contract)''),
      (''vyper-multi-part'', ''Vyper (Multi-part files)'')]"

definition method_option :: "string \<Rightarrow> jsvalue" where
  "method_option m =
     JObj [(''value'', JStr m),
           (''label'', (case map_of METHOD_LABELS m of Some l \<Rightarrow> JStr l | None \<Rightarrow> JUndefined))]"

definition DEFAULT_VALUES :: "(string \<times> jsvalue) list" where
  "DEFAULT_VALUES =
     [(''flattened-code'', JObj
        [(''method'', method_option ''flattened-code''),
         (''is_yul'', JBool False),
         (''name'', JStr []),
         (''compiler'', JNull),
         (''evm_version'', JNull),
         (''is_optimization_enabled'', JBool True),
         (''optimization_runs'', JStr ''200''),
         (''code'', JStr []),
         (''autodetect_constructor_args'', JBool True),
         (''constructor_args'', JStr []),
         (''libraries'', JArr [])]),
      (''standard-input'', JObj
        [(''method'', method_option ''standard-input''),
         (''name'', JStr []),
         (''compiler'', JNull),
         (''sources'', JArr []),
         (''autodetect_constructor_args'', JBool True),
         (''constructor_args'', JStr [])]),
      (''sourcify'', JObj
        [(''method'', method_option ''sourcify''),
         (''sources'', JArr [])]),
      (''multi-part'', JObj
        [(''method'', method_option ''multi-part''),
         (''compiler'', JNull),
         (''evm_version'', JNull),
         (''is_optimization_enabled'', JBool True),
         (''optimization_runs'', JNum 200),
         (''sources'', JArr []),
         (''libraries'', JArr [])]),
      (''vyper-code'', JObj
        [(''method'', method_option ''vyper-code''),
         (''name'', JStr []),
         (''compiler'', JNull),
         (''code'', JStr []),
         (''constructor_args'', JStr [])]),
      (''vyper-multi-part'', JObj
        [(''method'', method_option ''vyper-multi-part''),
         (''compiler'', JNull),
         (''evm_version'', JNull),
         (''sources'', JArr [])])]"

text \<open>\<open>Array.prototype.includes\<close> and \<open>Array.prototype.indexOf\<close> (\<open>-1\<close> when absent).\<close>

fun array_includes :: "'a list \<Rightarrow> 'a \<Rightarrow> bool" where
  "array_includes [] x = False"
| "array_includes (y # ys) x = (if y = x then True else array_includes ys x)"

fun indexOf :: "'a list \<Rightarrow> 'a \<Rightarrow> int" where
  "indexOf [] x = - 1"
| "indexOf (y # ys) x =
     (if y = x then 0 else (let i = indexOf ys x in if i < 0 then - 1 else i + 1))"

text \<open>
  The parameter is \<open>method?: string\<close>: \<open>None\<close> is the absent argument. The empty string
  is falsy, so the conjunction stops there.
\<close>

definition isValidVerificationMethod :: "string option \<Rightarrow> bool" where
  "isValidVerificationMethod method =
     (case method of
        None \<Rightarrow> False
      | Some m \<Rightarrow> (if m \<noteq> [] \<and> array_includes SUPPORTED_VERIFICATION_METHODS m then True else False))"

definition sortVerificationMethods :: "string \<Rightarrow> string \<Rightarrow> int" where
  "sortVerificationMethods methodA methodB =
     (let indexA = indexOf SUPPORTED_VERIFICATION_METHODS methodA;
          indexB = indexOf SUPPORTED_VERIFICATION_METHODS methodB
      in if indexA > indexB then 1 else if indexA < indexB then - 1 else 0)"

text \<open>
  \<open>Array.prototype.sort\<close> with a comparator, as a stable insertion sort: an element goes
  before the first one it does not compare greater than.
\<close>

fun insert_by :: "('a \<Rightarrow> 'a \<Rightarrow> int) \<Rightarrow> 'a \<Rightarrow> 'a list \<Rightarrow> 'a list" where
  "insert_by cmp x [] = [x]"
| "insert_by cmp x (y # ys) = (if cmp x y \<le> 0 then x # y # ys else y # insert_by cmp x ys)"

definition sort_by :: "('a \<Rightarrow> 'a \<Rightarrow> int) \<Rightarrow> 'a list \<Rightarrow> 'a list" where
  "sort_by cmp xs = foldr (insert_by cmp) xs []"

subsection \<open>Objects used as dictionaries\<close>

text \<open>
  An object literal inherits from \<open>Object.prototype\<close>. Reading \<open>obj[k]\<close> gives the own
  property when there is one, the inherited member when \<open>k\<close> names one, and \<open>undefined\<close>
  otherwise. These are the member names of \<open>Object.prototype\<close> in ECMAScript (Annex B
  included).
\<close>

definition Object_prototype_members :: "string list" where
  "Object_prototype_members =
     [''constructor'', ''hasOwnProperty'', ''isPrototypeOf'', ''propertyIsEnumerable'',
      ''toLocaleString'', ''toString'', ''valueOf'', ''__proto__'', ''__defineGetter__'',
      ''__defineSetter__'', ''__lookupGetter__'', ''__lookupSetter__'']"

datatype 'v property_read = Own 'v | Inherited string | Undefined

definition get_property :: "(string \<times> 'v) list \<Rightarrow> string \<Rightarrow> 'v property_read" where
  "get_property obj k =
     (case map_of obj k of
        Some v \<Rightarrow> Own v
      | None \<Rightarrow> if k \<in> set Object_prototype_members then Inherited k else Undefined)"

text \<open>
  Writing \<open>obj[k] = v\<close> with a string \<open>v\<close>: an existing own property keeps its place and
  takes the new value, a new name is added at the end. The name \<open>__proto__\<close> is the
  accessor inherited from \<open>Object.prototype\<close>; its setter ignores a value that is neither an
  object nor \<open>null\<close>, so that write creates no property.
\<close>

fun set_own :: "string \<Rightarrow> 'v \<Rightarrow> (string \<times> 'v) list \<Rightarrow> (string \<times> 'v) list" where
  "set_own k v [] = [(k, v)]"
| "set_own k v ((k', v') # ps) = (if k' = k then (k, v) # ps else (k', v') # set_own k v ps)"

definition assign_property :: "(string \<times> string) list \<Rightarrow> string \<Rightarrow> string \<Rightarrow> (string \<times> string) list" where
  "assign_property obj k v = (if k = ''__proto__'' then obj else set_own k v obj)"

subsection \<open>Form data and request bodies\<close>

text \<open>
  Modelled from the spec: the declarations of \<open>./types\<close> (\<open>FormFields\<close> and its six
  variants, \<open>ContractLibrary\<close>) are not part of the sources. The builder casts its argument
  to the variant of the method tag without a check, so the form data is one record with
  the fields the builder reads, each of them possibly absent; the compiler, EVM version and
  contract index are option objects with a \<open>value\<close>, or \<open>null\<close>, or absent. The field
  names of \<open>ContractLibrary\<close>, \<open>File\<close> and the option object carry a prefix, since \<open>name\<close>
  is a field of the form as well.
\<close>

datatype 'a nullable = Absent | Null | Present 'a

datatype SelectOption = SelectOption (option_value: string) (option_label: string)

datatype ContractLibrary = ContractLibrary (library_name: string) (library_address: string)

datatype File = File (file_name: string) (file_bits: string)

record FormFields =
  method_value :: string
  method_label :: string
  is_yul :: "bool option"
  name :: "string option"
  compiler :: "SelectOption nullable"
  evm_version :: "SelectOption nullable"
  is_optimization_enabled :: "bool option"
  optimization_runs :: jsvalue
  code :: "string option"
  autodetect_constructor_args :: "bool option"
  constructor_args :: "string option"
  libraries :: "ContractLibrary list option"
  sources :: "File list option"
  contract_index :: "SelectOption nullable"

text \<open>
  A multipart body is the list of its entries in order. A scalar entry holds a string; the
  string \<open>JSON.stringify\<close> makes of a name-to-address object is kept as the object it
  encodes (\<open>JsonText\<close>); a file entry holds the file.
\<close>

datatype FormDataEntryValue = Text string | JsonText "(string \<times> string) list" | FileValue File

type_synonym FormData = "(string \<times> FormDataEntryValue) list"

datatype RequestBody = PlainBody "(string \<times> jsvalue) list" | MultipartBody FormData

text \<open>
  \<open>FormData.set\<close>: the first entry of that name is replaced and the later ones of that name
  are removed; when there is none, the entry is appended.
\<close>

fun FormData_set :: "FormData \<Rightarrow> string \<Rightarrow> FormDataEntryValue \<Rightarrow> FormData" where
  "FormData_set [] n v = [(n, v)]"
| "FormData_set ((k, w) # es) n v =
     (if k = n then (n, v) # filter (\<lambda>e. fst e \<noteq> n) es else (k, w) # FormData_set es n v)"

text \<open>The reads \<open>x?.value\<close>, \<open>x\<close> of an optional field, and \<open>Boolean(x)\<close>.\<close>

definition value_of :: "SelectOption nullable \<Rightarrow> jsvalue" where
  "value_of x = (case x of Present opt \<Rightarrow> JStr (option_value opt) | _ \<Rightarrow> JUndefined)"

definition string_field :: "string option \<Rightarrow> jsvalue" where
  "string_field x = (case x of Some s \<Rightarrow> JStr s | None \<Rightarrow> JUndefined)"

definition bool_field :: "bool option \<Rightarrow> jsvalue" where
  "bool_field x = (case x of Some b \<Rightarrow> JBool b | None \<Rightarrow> JUndefined)"

definition Boolean_js :: "bool option \<Rightarrow> bool" where
  "Boolean_js x = (case x of Some b \<Rightarrow> b | None \<Rightarrow> False)"

subsection \<open>The request body builder\<close>

definition reduceLibrariesArray :: "ContractLibrary list option \<Rightarrow> (string \<times> string) list option" where
  "reduceLibrariesArray libs =
     (case libs of
        None \<Rightarrow> None
      | Some ls \<Rightarrow>
          if length ls = 0 then None
          else Some (foldl (\<lambda>result item. assign_property result (library_name item) (library_address item))
                       [] ls))"

definition files_key :: "nat \<Rightarrow> string" where
  "files_key index = ''files['' @ string_of_nat index @ '']''"

function addFiles_loop :: "FormData \<Rightarrow> File list \<Rightarrow> nat \<Rightarrow> FormData" where
  "addFiles_loop body files index =
     (if index < length files then
        (let file = files ! index
         in addFiles_loop
              (FormData_set body (files_key index) (FileValue (File (file_name file) (file_bits file))))
              files (index + 1))
      else body)"
  by pat_completeness auto
termination
  by (relation "measure (\<lambda>(body, files, index). length files - index)") auto

definition addFilesToFormData :: "FormData \<Rightarrow> File list option \<Rightarrow> FormData" where
  "addFilesToFormData body files =
     (case files of None \<Rightarrow> body | Some fs \<Rightarrow> addFiles_loop body fs 0)"

definition prepareRequestBody :: "FormFields \<Rightarrow> RequestBody" where
  "prepareRequestBody data =
     (if method_value data = ''flattened-code'' then
        PlainBody
          [(''compiler_version'', value_of (compiler data)),
           (''source_code'', string_field (code data)),
           (''is_optimization_enabled'', bool_field (is_optimization_enabled data)),
           (''is_yul_contract'', bool_field (is_yul data)),
           (''optimization_runs'', optimization_runs data),
           (''contract_name'', string_field (name data)),
           (''libraries'',
              (case reduceLibrariesArray (libraries data) of
                 None \<Rightarrow> JUndefined
               | Some r \<Rightarrow> JObj (map (\<lambda>(k, a). (k, JStr a)) r))),
           (''evm_version'', value_of (evm_version data)),
           (''autodetect_constructor_args'', bool_field (autodetect_constructor_args data)),
           (''constructor_args'', string_field (constructor_args data))]
      else if method_value data = ''standard-input'' then
        (let body = [];
             body = FormData_set body ''compiler_version'' (Text (String_js (value_of (compiler data))));
             body = FormData_set body ''contract_name'' (Text (String_js (string_field (name data))));
             body = FormData_set body ''autodetect_constructor_args''
                      (Text (String_js (JBool (Boolean_js (autodetect_constructor_args data)))));
             body = FormData_set body ''constructor_args''
                      (Text (String_js (string_field (constructor_args data))));
             body = addFilesToFormData body (sources data)
         in MultipartBody body)
      else if method_value data = ''sourcify'' then
        (let body = [];
             body = addFilesToFormData body (sources data);
             body = (case contract_index data of
                       Present opt \<Rightarrow> FormData_set body ''chosen_contract_index'' (Text (option_value opt))
                     | _ \<Rightarrow> body)
         in MultipartBody body)
      else if method_value data = ''multi-part'' then
        (let body = [];
             body = FormData_set body ''compiler_version'' (Text (String_js (value_of (compiler data))));
             body = FormData_set body ''evm_version'' (Text (String_js (value_of (evm_version data))));
             body = FormData_set body ''is_optimization_enabled''
                      (Text (String_js (JBool (Boolean_js (is_optimization_enabled data)))));
             body = (if Boolean_js (is_optimization_enabled data)
                     then FormData_set body ''optimization_runs'' (Text (String_js (optimization_runs data)))
                     else body);
             libs = reduceLibrariesArray (libraries data);
             body = (case libs of
                       Some r \<Rightarrow> FormData_set body ''libraries'' (JsonText r)
                     | None \<Rightarrow> body);
             body = addFilesToFormData body (sources data)
         in MultipartBody body)
      else if method_value data = ''vyper-code'' then
        PlainBody
          [(''compiler_version'', value_of (compiler data)),
           (''source_code'', string_field (code data)),
           (''contract_name'', string_field (name data)),
           (''constructor_args'', string_field (constructor_args data))]
      else if method_value data = ''vyper-multi-part'' then
        (let body = [];
             body = FormData_set body ''compiler_version'' (Text (String_js (value_of (compiler data))));
             body = FormData_set body ''evm_version'' (Text (String_js (value_of (evm_version data))));
             body = addFilesToFormData body (sources data)
         in MultipartBody body)
      else PlainBody [])"

text \<open>The entries of a multipart body that hold a file, in order.\<close>

definition file_entries :: "FormData \<Rightarrow> (string \<times> File) list" where
  "file_entries body = concat (map (\<lambda>(k, v). case v of FileValue f \<Rightarrow> [(k, f)] | _ \<Rightarrow> []) body)"

subsection \<open>The error-field remapper\<close>

definition API_ERROR_TO_FORM_FIELD :: "(string \<times> string) list" where
  "API_ERROR_TO_FORM_FIELD =
     [(''contract_source_code'', ''code''),
      (''files'', ''sources''),
      (''compiler_version'', ''compiler''),
      (''constructor_arguments'', ''constructor_args''),
      (''name'', ''name'')]"

datatype ErrorOption = ErrorOption (message: string)

text \<open>
  The payload is the list \<open>Object.entries\<close> makes of it: its own properties, each a key
  with its list of messages, in the payload's own key order.
\<close>

definition formatSocketErrors :: "(string \<times> string list) list \<Rightarrow> (string property_read \<times> ErrorOption) list" where
  "formatSocketErrors errors =
     map (\<lambda>(key, value). (get_property API_ERROR_TO_FORM_FIELD key, ErrorOption (join '','' value))) errors"

subsection \<open>Auxiliary definitions: reading a body, sample form data\<close>

definition body_keys :: "RequestBody \<Rightarrow> string list" where
  "body_keys b = (case b of PlainBody ps \<Rightarrow> map fst ps | MultipartBody es \<Rightarrow> map fst es)"

definition plain_field :: "RequestBody \<Rightarrow> string \<Rightarrow> jsvalue option" where
  "plain_field b k = (case b of PlainBody ps \<Rightarrow> map_of ps k | MultipartBody es \<Rightarrow> None)"

definition multipart_field :: "RequestBody \<Rightarrow> string \<Rightarrow> FormDataEntryValue option" where
  "multipart_field b k = (case b of PlainBody ps \<Rightarrow> None | MultipartBody es \<Rightarrow> map_of es k)"

text \<open>The source list of the form, empty when the field is absent.\<close>

definition source_files :: "FormFields \<Rightarrow> File list" where
  "source_files data = (case sources data of None \<Rightarrow> [] | Some fs \<Rightarrow> fs)"

text \<open>The entries \<open>files[i]\<close>, \<open>files[i+1]\<close>, ... for the files from index \<open>i\<close> on.\<close>

definition files_part :: "File list \<Rightarrow> nat \<Rightarrow> FormData" where
  "files_part fs i = map (\<lambda>k. (files_key k, FileValue (fs ! k))) [i..<length fs]"

text \<open>The value of a decimal numeral, to tell two rendered indices apart.\<close>

definition digits_value :: "string \<Rightarrow> nat" where
  "digits_value s = foldl (\<lambda>a c. 10 * a + (of_char c - 48)) 0 s"

text \<open>The callback of the reduction, by name.\<close>

definition reduce_step :: "(string \<times> string) list \<Rightarrow> ContractLibrary \<Rightarrow> (string \<times> string) list" where
  "reduce_step result item = assign_property result (library_name item) (library_address item)"

definition file_bearing_methods :: "string list" where
  "file_bearing_methods = [''standard-input'', ''sourcify'', ''multi-part'', ''vyper-multi-part'']"

text \<open>A form that carries a method tag and nothing else.\<close>

definition empty_form :: "string \<Rightarrow> FormFields" where
  "empty_form m =
     \<lparr>method_value = m, method_label = [], is_yul = None, name = None, compiler = Absent,
      evm_version = Absent, is_optimization_enabled = None, optimization_runs = JUndefined,
      code = None, autodetect_constructor_args = None, constructor_args = None,
      libraries = None, sources = None, contract_index = Absent\<rparr>"

definition proto_libraries :: "ContractLibrary list" where
  "proto_libraries =
     [ContractLibrary ''__proto__'' ''0x01'', ContractLibrary ''Math'' ''0x02'',
      ContractLibrary ''__proto__'' ''0x03'']"

subsection \<open>What the specification says, in its own words\<close>

text \<open>The scalar stored for a compiler or EVM version: its value, or the text \<open>undefined\<close>.\<close>

definition undefined_or_value :: "SelectOption nullable \<Rightarrow> string" where
  "undefined_or_value x = (case x of Present opt \<Rightarrow> option_value opt | _ \<Rightarrow> ''undefined'')"

text \<open>
  The field path of an error key: the five dictionary entries; a member inherited from
  \<open>Object.prototype\<close> for a key that names one; \<open>undefined\<close> for any other key.
\<close>

definition field_path_of :: "string \<Rightarrow> string property_read" where
  "field_path_of key =
     (if key = ''contract_source_code'' then Own ''code''
      else if key = ''files'' then Own ''sources''
      else if key = ''compiler_version'' then Own ''compiler''
      else if key = ''constructor_arguments'' then Own ''constructor_args''
      else if key = ''name'' then Own ''name''
      else if key \<in> set Object_prototype_members then Inherited key
      else Undefined)"

text \<open>The top-level fields of a method's entry in the default-value table.\<close>

definition default_fields :: "string \<Rightarrow> (string \<times> jsvalue) list" where
  "default_fields m = (case map_of DEFAULT_VALUES m of Some (JObj ps) \<Rightarrow> ps | _ \<Rightarrow> [])"

definition default_field :: "string \<Rightarrow> string \<Rightarrow> jsvalue option" where
  "default_field m k = map_of (default_fields m) k"

text \<open>
  What a default value looks like: the two flags are \<open>true\<close>; a number is a run count and
  is 200; a collection is empty; a string is empty, except the run count of
  \<open>flattened-code\<close>, which is the string \<open>200\<close>.
\<close>

definition default_shape :: "string \<Rightarrow> string \<Rightarrow> jsvalue \<Rightarrow> bool" where
  "default_shape m k v \<longleftrightarrow>
     (k = ''is_optimization_enabled'' \<or> k = ''autodetect_constructor_args'' \<longrightarrow> v = JBool True)
   \<and> (case v of
          JNum n \<Rightarrow> k = ''optimization_runs'' \<and> n = 200
        | JArr xs \<Rightarrow> xs = []
        | JStr s \<Rightarrow> s = [] \<or> (m = ''flattened-code'' \<and> k = ''optimization_runs'' \<and> s = ''200'')
        | _ \<Rightarrow> True)"

text \<open>
  The form fields \<open>prepareRequestBody\<close> reads in the branch of each method, in the order
  it reads them.
\<close>

definition builder_fields :: "string \<Rightarrow> string list" where
  "builder_fields m =
     (if m = ''flattened-code'' then
        [''compiler'', ''code'', ''is_optimization_enabled'', ''is_yul'', ''optimization_runs'', ''name'',
         ''libraries'', ''evm_version'', ''autodetect_constructor_args'', ''constructor_args'']
      else if m = ''standard-input'' then
        [''compiler'', ''name'', ''autodetect_constructor_args'', ''constructor_args'', ''sources'']
      else if m = ''sourcify'' then [''sources'', ''contract_index'']
      else if m = ''multi-part'' then
        [''compiler'', ''evm_version'', ''is_optimization_enabled'', ''optimization_runs'', ''libraries'',
         ''sources'']
      else if m = ''vyper-code'' then [''compiler'', ''code'', ''name'', ''constructor_args'']
      else if m = ''vyper-multi-part'' then [''compiler'', ''evm_version'', ''sources'']
      else [])"

text \<open>
  The default of a field by its kind: the two flags are \<open>true\<close>; the run count is 200 (the
  string \<open>200\<close> for flattened-code); a collection is empty; a string is empty; the Yul
  flag is \<open>false\<close>; the compiler and the EVM version are \<open>null\<close>.
\<close>

definition default_value_of :: "string \<Rightarrow> string \<Rightarrow> jsvalue" where
  "default_value_of m k =
     (if k = ''is_optimization_enabled'' \<or> k = ''autodetect_constructor_args'' then JBool True
      else if k = ''optimization_runs'' then (if m = ''flattened-code'' then JStr ''200'' else JNum 200)
      else if k = ''sources'' \<or> k = ''libraries'' then JArr []
      else if k = ''name'' \<or> k = ''code'' \<or> k = ''constructor_args'' then JStr []
      else if k = ''is_yul'' then JBool False
      else if k = ''compiler'' \<or> k = ''evm_version'' then JNull
      else JUndefined)"

text \<open>
  An entry is populated: its field names are pairwise different, every field the builder
  reads for the method is present, except the chosen contract index, which is absent; and
  it has no field besides the method and the fields the builder reads.
\<close>

definition default_populated :: "string \<Rightarrow> bool" where
  "default_populated m \<longleftrightarrow>
     distinct (map fst (default_fields m))
   \<and> (\<forall>k \<in> set (builder_fields m).
         if k = ''contract_index'' then default_field m k = None else default_field m k \<noteq> None)
   \<and> (\<forall>k \<in> set (map fst (default_fields m)). k = ''method'' \<or> k \<in> set (builder_fields m))"

text \<open>The address of the last library of a given name, if there is one.\<close>

definition last_address :: "ContractLibrary list \<Rightarrow> string \<Rightarrow> string option" where
  "last_address ls n =
     (case filter (\<lambda>l. library_name l = n) ls of [] \<Rightarrow> None | ms \<Rightarrow> Some (library_address (last ms)))"

declare string_of_nat.simps [simp del]
declare addFiles_loop.simps [simp del]

section \<open>Properties of the registry\<close>

lemma array_includes_iff: "array_includes xs x \<longleftrightarrow> x \<in> set xs"
  by (induction xs) auto

lemma supported_iff:
  "m \<in> set SUPPORTED_VERIFICATION_METHODS \<longleftrightarrow>
     m = ''flattened-code'' \<or> m = ''standard-input'' \<or> m = ''sourcify'' \<or> m = ''multi-part''
     \<or> m = ''vyper-code'' \<or> m = ''vyper-multi-part''"
  by (simp add: SUPPORTED_VERIFICATION_METHODS_def)

text \<open>
  C7: \<open>isValidVerificationMethod\<close> is true exactly for an argument that is a string equal to
  one of the six method tags; it is true for \<open>flattened-code\<close>, false for
  \<open>unknown-method\<close> and false for the absent argument.
\<close>

theorem isValidVerificationMethod_iff:
  "(isValidVerificationMethod candidate \<longleftrightarrow>
      (\<exists>m. candidate = Some m \<and> m \<in> set SUPPORTED_VERIFICATION_METHODS))
   \<and> isValidVerificationMethod (Some ''flattened-code'')
   \<and> \<not> isValidVerificationMethod (Some ''unknown-method'')
   \<and> \<not> isValidVerificationMethod None"
proof -
  have "[] \<notin> set SUPPORTED_VERIFICATION_METHODS"
    by (simp add: SUPPORTED_VERIFICATION_METHODS_def)
  then have "isValidVerificationMethod candidate \<longleftrightarrow>
      (\<exists>m. candidate = Some m \<and> m \<in> set SUPPORTED_VERIFICATION_METHODS)"
    by (cases candidate) (auto simp: isValidVerificationMethod_def array_includes_iff)
  moreover have "isValidVerificationMethod (Some ''flattened-code'')"
    by (simp add: isValidVerificationMethod_def SUPPORTED_VERIFICATION_METHODS_def)
  moreover have "\<not> isValidVerificationMethod (Some ''unknown-method'')"
    by (simp add: isValidVerificationMethod_def SUPPORTED_VERIFICATION_METHODS_def)
  moreover have "\<not> isValidVerificationMethod None"
    by (simp add: isValidVerificationMethod_def)
  ultimately show ?thesis by blast
qed

subsection \<open>The comparator and the canonical order\<close>

text \<open>With this comparator the insertion sort is the library's sort by the index as key.\<close>

lemma insert_by_insort:
  "insert_by sortVerificationMethods x ys = insort_key (indexOf SUPPORTED_VERIFICATION_METHODS) x ys"
  by (induction ys) (auto simp: sortVerificationMethods_def Let_def)

lemma sort_by_sort_key:
  "sort_by sortVerificationMethods xs = sort_key (indexOf SUPPORTED_VERIFICATION_METHODS) xs"
  by (induction xs) (simp_all add: sort_by_def insert_by_insort)

lemma indexOf_inj:
  "inj_on (indexOf SUPPORTED_VERIFICATION_METHODS) (set SUPPORTED_VERIFICATION_METHODS)"
  by (simp add: SUPPORTED_VERIFICATION_METHODS_def)

lemma indexOf_sorted:
  "sorted (map (indexOf SUPPORTED_VERIFICATION_METHODS) SUPPORTED_VERIFICATION_METHODS)"
  by (simp add: SUPPORTED_VERIFICATION_METHODS_def)

lemma indexOf_nth:
  assumes "i < 6"
  shows "indexOf SUPPORTED_VERIFICATION_METHODS (SUPPORTED_VERIFICATION_METHODS ! i) = int i"
proof -
  from assms consider "i = 0" | "i = 1" | "i = 2" | "i = 3" | "i = 4" | "i = 5" by linarith
  then show ?thesis
    by cases (simp_all add: SUPPORTED_VERIFICATION_METHODS_def)
qed

text \<open>
  Whatever algorithm sorts: a rearrangement of the six tags that the comparator accepts
  as ordered is the canonical list.
\<close>

lemma ordered_permutation_unique:
  assumes "mset ys = mset SUPPORTED_VERIFICATION_METHODS"
    and "sorted_wrt (\<lambda>a b. sortVerificationMethods a b \<le> 0) ys"
  shows "ys = SUPPORTED_VERIFICATION_METHODS"
proof -
  let ?ix = "indexOf SUPPORTED_VERIFICATION_METHODS"
  have le: "sortVerificationMethods a b \<le> 0 \<longleftrightarrow> ?ix a \<le> ?ix b" for a b
    by (simp add: sortVerificationMethods_def Let_def)
  from assms(2) have "sorted (map ?ix ys)"
    by (simp add: sorted_map le)
  moreover from assms(1) have "set ys = set SUPPORTED_VERIFICATION_METHODS"
    by (rule mset_eq_setD)
  with indexOf_inj have "inj_on ?ix (set ys)" by simp
  ultimately have "sort_key ?ix ys = ys"
    by (intro sort_key_inj_key_eq) simp_all
  moreover have "sort_key ?ix ys = SUPPORTED_VERIFICATION_METHODS"
    using \<open>inj_on ?ix (set ys)\<close> assms(1) indexOf_sorted by (intro sort_key_inj_key_eq)
  ultimately show ?thesis by simp
qed

text \<open>
  C3: sorting any permutation of the six method tags with \<open>sortVerificationMethods\<close> yields
  the canonical order flattened-code, standard-input, sourcify, multi-part, vyper-code,
  vyper-multi-part; and on two of the six tags the comparator returns 1, -1 or 0 as the
  position of the first is after, before or equal to the position of the second.
\<close>

theorem sortVerificationMethods_canonical:
  "(mset xs = mset SUPPORTED_VERIFICATION_METHODS \<longrightarrow>
      sort_by sortVerificationMethods xs = SUPPORTED_VERIFICATION_METHODS)
   \<and> SUPPORTED_VERIFICATION_METHODS =
       [''flattened-code'', ''standard-input'', ''sourcify'', ''multi-part'', ''vyper-code'',
        ''vyper-multi-part'']
   \<and> (\<forall>i<6. \<forall>j<6.
        sortVerificationMethods (SUPPORTED_VERIFICATION_METHODS ! i) (SUPPORTED_VERIFICATION_METHODS ! j)
          = (if j < i then 1 else if i < j then - 1 else 0))"
proof (intro conjI impI allI)
  assume p: "mset xs = mset SUPPORTED_VERIFICATION_METHODS"
  then have "set xs = set SUPPORTED_VERIFICATION_METHODS" by (rule mset_eq_setD)
  with indexOf_inj have "inj_on (indexOf SUPPORTED_VERIFICATION_METHODS) (set xs)" by simp
  then have "sort_key (indexOf SUPPORTED_VERIFICATION_METHODS) xs = SUPPORTED_VERIFICATION_METHODS"
    using p indexOf_sorted by (intro sort_key_inj_key_eq)
  then show "sort_by sortVerificationMethods xs = SUPPORTED_VERIFICATION_METHODS"
    by (simp add: sort_by_sort_key)
next
  show "SUPPORTED_VERIFICATION_METHODS =
       [''flattened-code'', ''standard-input'', ''sourcify'', ''multi-part'', ''vyper-code'',
        ''vyper-multi-part'']"
    by (simp add: SUPPORTED_VERIFICATION_METHODS_def)
next
  fix i j :: nat
  assume "i < 6" "j < 6"
  then show "sortVerificationMethods (SUPPORTED_VERIFICATION_METHODS ! i) (SUPPORTED_VERIFICATION_METHODS ! j)
          = (if j < i then 1 else if i < j then - 1 else 0)"
    by (simp add: sortVerificationMethods_def indexOf_nth)
qed

theorem sortVerificationMethods_canonical_witness:
  "mset [''vyper-multi-part'', ''sourcify'', ''flattened-code'', ''vyper-code'', ''multi-part'', ''standard-input'']
     = mset SUPPORTED_VERIFICATION_METHODS
   \<and> sort_by sortVerificationMethods
       [''vyper-multi-part'', ''sourcify'', ''flattened-code'', ''vyper-code'', ''multi-part'', ''standard-input'']
     = [''flattened-code'', ''standard-input'', ''sourcify'', ''multi-part'', ''vyper-code'', ''vyper-multi-part'']
   \<and> sortVerificationMethods ''sourcify'' ''flattened-code'' = 1
   \<and> sortVerificationMethods ''sourcify'' ''vyper-code'' = - 1
   \<and> sortVerificationMethods ''sourcify'' ''sourcify'' = 0"
proof -
  have p: "mset [''vyper-multi-part'', ''sourcify'', ''flattened-code'', ''vyper-code'', ''multi-part'', ''standard-input'']
     = mset SUPPORTED_VERIFICATION_METHODS"
    by (simp add: SUPPORTED_VERIFICATION_METHODS_def)
  note t = sortVerificationMethods_canonical
    [of "[''vyper-multi-part'', ''sourcify'', ''flattened-code'', ''vyper-code'', ''multi-part'', ''standard-input'']"]
  from t p have s: "sort_by sortVerificationMethods
       [''vyper-multi-part'', ''sourcify'', ''flattened-code'', ''vyper-code'', ''multi-part'', ''standard-input'']
     = SUPPORTED_VERIFICATION_METHODS" by blast
  from t have c: "\<And>i j. i < 6 \<Longrightarrow> j < 6 \<Longrightarrow>
        sortVerificationMethods (SUPPORTED_VERIFICATION_METHODS ! i) (SUPPORTED_VERIFICATION_METHODS ! j)
          = (if j < i then 1 else if i < j then - 1 else 0)" by blast
  have "sortVerificationMethods ''sourcify'' ''flattened-code'' = 1"
    using c [of 2 0] by (simp add: SUPPORTED_VERIFICATION_METHODS_def)
  moreover have "sortVerificationMethods ''sourcify'' ''vyper-code'' = - 1"
    using c [of 2 4] by (simp add: SUPPORTED_VERIFICATION_METHODS_def)
  moreover have "sortVerificationMethods ''sourcify'' ''sourcify'' = 0"
    using c [of 2 2] by (simp add: SUPPORTED_VERIFICATION_METHODS_def)
  ultimately show ?thesis using p s by (simp add: SUPPORTED_VERIFICATION_METHODS_def)
qed

subsection \<open>The default-value table\<close>

lemma default_field_in: "default_field m k = Some v \<Longrightarrow> (k, v) \<in> set (default_fields m)"
  by (simp add: default_field_def map_of_SomeD)

lemma default_shape_all:
  assumes "m \<in> set SUPPORTED_VERIFICATION_METHODS"
  shows "\<forall>(k, v) \<in> set (default_fields m). default_shape m k v"
proof -
  from assms have "m = ''flattened-code'' \<or> m = ''standard-input'' \<or> m = ''sourcify''
      \<or> m = ''multi-part'' \<or> m = ''vyper-code'' \<or> m = ''vyper-multi-part''"
    by (simp only: supported_iff)
  then show ?thesis
    by (elim disjE)
       (simp_all add: default_fields_def DEFAULT_VALUES_def method_option_def default_shape_def)
qed

lemma default_entry:
  assumes "m \<in> set SUPPORTED_VERIFICATION_METHODS" "default_field m k = Some v"
  shows "default_shape m k v"
  using default_shape_all [OF assms(1)] default_field_in [OF assms(2)] by blast

lemma default_populated_all:
  assumes "m \<in> set SUPPORTED_VERIFICATION_METHODS"
  shows "default_populated m"
proof -
  from assms have "m = ''flattened-code'' \<or> m = ''standard-input'' \<or> m = ''sourcify''
      \<or> m = ''multi-part'' \<or> m = ''vyper-code'' \<or> m = ''vyper-multi-part''"
    by (simp only: supported_iff)
  then show ?thesis
    by (elim disjE)
       (simp_all add: default_populated_def default_field_def default_fields_def DEFAULT_VALUES_def
          builder_fields_def)
qed

lemma default_values_all:
  assumes "m \<in> set SUPPORTED_VERIFICATION_METHODS"
  shows "\<forall>(k, v) \<in> set (default_fields m). k \<noteq> ''method'' \<longrightarrow> v = default_value_of m k"
proof -
  from assms have "m = ''flattened-code'' \<or> m = ''standard-input'' \<or> m = ''sourcify''
      \<or> m = ''multi-part'' \<or> m = ''vyper-code'' \<or> m = ''vyper-multi-part''"
    by (simp only: supported_iff)
  then show ?thesis
    by (elim disjE)
       (simp_all add: default_fields_def DEFAULT_VALUES_def default_value_of_def)
qed

lemma default_method_label:
  assumes "m \<in> set SUPPORTED_VERIFICATION_METHODS"
  shows "\<exists>l. map_of METHOD_LABELS m = Some l
           \<and> default_field m ''method'' = Some (JObj [(''value'', JStr m), (''label'', JStr l)])"
proof -
  from assms have "m = ''flattened-code'' \<or> m = ''standard-input'' \<or> m = ''sourcify''
      \<or> m = ''multi-part'' \<or> m = ''vyper-code'' \<or> m = ''vyper-multi-part''"
    by (simp only: supported_iff)
  then show ?thesis
    by (elim disjE)
       (simp_all add: default_field_def default_fields_def DEFAULT_VALUES_def method_option_def
          METHOD_LABELS_def)
qed

text \<open>
  C8, as the table has it: for every method tag the default-value table has an entry whose
  \<open>method\<close> field carries the tag and its label from \<open>METHOD_LABELS\<close>, and which holds
  every field the builder reads for that method, and no other, except that the optional
  chosen contract index of sourcify is absent. In it every optimization-enabled and
  autodetect-constructor-args field is \<open>true\<close>, every numeric field is a run count and is
  200, every collection field is empty, and every string field is the empty string, except
  the run count of flattened-code, which is the string \<open>200\<close>; the Yul flag is
  \<open>false\<close>, the compiler and the EVM version are \<open>null\<close>.
\<close>

theorem DEFAULT_VALUES_shape:
  "\<forall>m \<in> set SUPPORTED_VERIFICATION_METHODS.
      (\<exists>l. map_of METHOD_LABELS m = Some l
         \<and> default_field m ''method'' = Some (JObj [(''value'', JStr m), (''label'', JStr l)]))
    \<and> default_populated m
    \<and> (\<forall>k v. default_field m k = Some v \<longrightarrow>
          default_shape m k v \<and> (k \<noteq> ''method'' \<longrightarrow> v = default_value_of m k))"
proof (intro ballI conjI allI impI)
  fix m assume m: "m \<in> set SUPPORTED_VERIFICATION_METHODS"
  show "\<exists>l. map_of METHOD_LABELS m = Some l
         \<and> default_field m ''method'' = Some (JObj [(''value'', JStr m), (''label'', JStr l)])"
    by (rule default_method_label [OF m])
  show "default_populated m" by (rule default_populated_all [OF m])
  fix k v assume f: "default_field m k = Some v"
  show "default_shape m k v" by (rule default_entry [OF m f])
  assume "k \<noteq> ''method''"
  with default_values_all [OF m] default_field_in [OF f] show "v = default_value_of m k" by blast
qed

theorem DEFAULT_VALUES_shape_witness:
  "''multi-part'' \<in> set SUPPORTED_VERIFICATION_METHODS
   \<and> default_field ''multi-part'' ''method''
       = Some (JObj [(''value'', JStr ''multi-part''), (''label'', JStr ''Solidity (Multi-part files)'')])
   \<and> default_populated ''multi-part''
   \<and> default_field ''multi-part'' ''optimization_runs'' = Some (JNum 200)
   \<and> default_shape ''multi-part'' ''optimization_runs'' (JNum 200)
   \<and> default_value_of ''multi-part'' ''optimization_runs'' = JNum 200
   \<and> default_field ''multi-part'' ''libraries'' \<noteq> None
   \<and> default_field ''sourcify'' ''contract_index'' = None"
proof -
  have a: "''multi-part'' \<in> set SUPPORTED_VERIFICATION_METHODS"
    and b: "''sourcify'' \<in> set SUPPORTED_VERIFICATION_METHODS"
    by (simp_all add: SUPPORTED_VERIFICATION_METHODS_def)
  have c: "default_field ''multi-part'' ''optimization_runs'' = Some (JNum 200)"
    by (simp add: default_field_def default_fields_def DEFAULT_VALUES_def)
  from DEFAULT_VALUES_shape a have p: "default_populated ''multi-part''" by blast
  from DEFAULT_VALUES_shape b have q: "default_populated ''sourcify''" by blast
  from DEFAULT_VALUES_shape a c
  have s: "default_shape ''multi-part'' ''optimization_runs'' (JNum 200)"
    and v: "JNum 200 = default_value_of ''multi-part'' ''optimization_runs''"
    by simp_all
  from DEFAULT_VALUES_shape a obtain l where
    l: "map_of METHOD_LABELS ''multi-part'' = Some l"
       "default_field ''multi-part'' ''method'' = Some (JObj [(''value'', JStr ''multi-part''), (''label'', JStr l)])"
    by blast
  from l(1) have "l = ''Solidity (Multi-part files)''" by (simp add: METHOD_LABELS_def)
  with l(2) have lab: "default_field ''multi-part'' ''method''
       = Some (JObj [(''value'', JStr ''multi-part''), (''label'', JStr ''Solidity (Multi-part files)'')])"
    by simp
  from p have "default_field ''multi-part'' ''libraries'' \<noteq> None"
    by (simp add: default_populated_def builder_fields_def)
  moreover from q have "default_field ''sourcify'' ''contract_index'' = None"
    by (simp add: default_populated_def builder_fields_def)
  ultimately show ?thesis using a p c s v lab by simp
qed

text \<open>
  Against the claim that every string field defaults to the empty string and that the
  entries are fully populated: the run count of flattened-code is a string field, and its
  default is the string \<open>200\<close>; the builder reads the chosen contract index of a sourcify
  form, and the sourcify entry has no such field.
\<close>

theorem DEFAULT_VALUES_counterexample:
  "default_field ''flattened-code'' ''optimization_runs'' = Some (JStr ''200'') \<and> ''200'' \<noteq> ''''
   \<and> ''contract_index'' \<in> set (builder_fields ''sourcify'')
   \<and> default_field ''sourcify'' ''contract_index'' = None"
  by (simp add: default_field_def default_fields_def DEFAULT_VALUES_def builder_fields_def)

section \<open>Properties of the request body builder\<close>

subsection \<open>Index keys are pairwise different\<close>

lemma digits_value_snoc: "digits_value (s @ [c]) = 10 * digits_value s + (of_char c - 48)"
  by (simp add: digits_value_def)

lemma digit_char_value: "d < 10 \<Longrightarrow> of_char (digit_char d) - 48 = d"
  by (simp add: digit_char_def)

lemma digits_value_string_of_nat: "digits_value (string_of_nat n) = n"
proof (induction n rule: string_of_nat.induct)
  case (1 n)
  show ?case
  proof (cases "n < 10")
    case True
    then have "string_of_nat n = [digit_char n]" by (subst string_of_nat.simps) simp
    with True show ?thesis by (simp add: digits_value_def digit_char_value)
  next
    case False
    then have "string_of_nat n = string_of_nat (n div 10) @ [digit_char (n mod 10)]"
      by (subst string_of_nat.simps) simp
    with False 1 show ?thesis by (simp add: digits_value_snoc digit_char_value)
  qed
qed

lemma string_of_nat_inj: "string_of_nat m = string_of_nat n \<Longrightarrow> m = n"
  by (metis digits_value_string_of_nat)

lemma files_key_inj: "files_key i = files_key j \<longleftrightarrow> i = j"
  by (auto simp: files_key_def dest: string_of_nat_inj)

lemma files_key_examples:
  "files_key 0 = ''files[0]''" "files_key (Suc 0) = ''files[1]''" "files_key 12 = ''files[12]''"
  by code_simp+

lemma files_key_neq [simp]:
  "files_key j \<noteq> ''compiler_version''" "files_key j \<noteq> ''contract_name''"
  "files_key j \<noteq> ''autodetect_constructor_args''" "files_key j \<noteq> ''constructor_args''"
  "files_key j \<noteq> ''chosen_contract_index''" "files_key j \<noteq> ''evm_version''"
  "files_key j \<noteq> ''is_optimization_enabled''" "files_key j \<noteq> ''optimization_runs''"
  "files_key j \<noteq> ''libraries''"
  by (simp_all add: files_key_def)

subsection \<open>Setting a new name appends; the file loop\<close>

lemma FormData_set_fresh: "n \<notin> fst ` set b \<Longrightarrow> FormData_set b n v = b @ [(n, v)]"
  by (induction b) auto

lemma addFiles_loop_fresh:
  "(\<forall>k. i \<le> k \<and> k < length fs \<longrightarrow> files_key k \<notin> fst ` set b)
     \<Longrightarrow> addFiles_loop b fs i = b @ files_part fs i"
proof (induction b fs i rule: addFiles_loop.induct)
  case (1 body files index)
  show ?case
  proof (cases "index < length files")
    case False
    then show ?thesis by (subst addFiles_loop.simps) (simp add: files_part_def)
  next
    case True
    let ?e = "(files_key index, FileValue (files ! index))"
    from True 1(2) have fresh: "files_key index \<notin> fst ` set body" by simp
    have step: "FormData_set body (files_key index)
                 (FileValue (File (file_name (files ! index)) (file_bits (files ! index)))) = body @ [?e]"
      using fresh by (simp add: FormData_set_fresh)
    have "\<forall>k. index + 1 \<le> k \<and> k < length files \<longrightarrow> files_key k \<notin> fst ` set (body @ [?e])"
      using 1(2) by (auto simp: files_key_inj)
    with 1(1) [OF True refl] step
    have "addFiles_loop (body @ [?e]) files (index + 1) = (body @ [?e]) @ files_part files (index + 1)"
      by simp
    moreover have "files_part files index = ?e # files_part files (index + 1)"
      using True by (simp add: files_part_def upt_conv_Cons)
    ultimately show ?thesis
      using True step by (subst addFiles_loop.simps) (simp add: Let_def)
  qed
qed

lemma files_part_keys: "k \<in> fst ` set (files_part fs i) \<Longrightarrow> \<exists>j. k = files_key j"
  by (auto simp: files_part_def)

lemma addFilesToFormData_fresh:
  "(\<forall>j. files_key j \<notin> fst ` set b) \<Longrightarrow>
     addFilesToFormData b (sources data) = b @ files_part (source_files data) 0"
  by (cases "sources data")
     (simp_all add: addFilesToFormData_def source_files_def files_part_def addFiles_loop_fresh)

subsection \<open>The body of each file-bearing method, entry by entry\<close>

lemma prepare_standard_input:
  "method_value data = ''standard-input'' \<Longrightarrow>
   prepareRequestBody data = MultipartBody
     ([(''compiler_version'', Text (String_js (value_of (compiler data)))),
       (''contract_name'', Text (String_js (string_field (name data)))),
       (''autodetect_constructor_args'',
          Text (String_js (JBool (Boolean_js (autodetect_constructor_args data))))),
       (''constructor_args'', Text (String_js (string_field (constructor_args data))))]
      @ files_part (source_files data) 0)"
  by (simp add: prepareRequestBody_def Let_def addFilesToFormData_fresh del: String_js.simps)

lemma prepare_sourcify:
  "method_value data = ''sourcify'' \<Longrightarrow>
   prepareRequestBody data = MultipartBody
     (files_part (source_files data) 0
      @ (case contract_index data of
           Present opt \<Rightarrow> [(''chosen_contract_index'', Text (option_value opt))] | _ \<Rightarrow> []))"
proof -
  assume m: "method_value data = ''sourcify''"
  have a: "addFilesToFormData [] (sources data) = files_part (source_files data) 0"
    using addFilesToFormData_fresh [of "[]" data] by simp
  have "''chosen_contract_index'' \<notin> fst ` set (files_part (source_files data) 0)"
    using files_part_keys files_key_neq(5) by metis
  then have "FormData_set (files_part (source_files data) 0) ''chosen_contract_index'' v
      = files_part (source_files data) 0 @ [(''chosen_contract_index'', v)]" for v
    by (rule FormData_set_fresh)
  with m a show ?thesis
    by (simp add: prepareRequestBody_def split: nullable.splits)
qed

lemma prepare_multi_part:
  "method_value data = ''multi-part'' \<Longrightarrow>
   prepareRequestBody data = MultipartBody
     ([(''compiler_version'', Text (String_js (value_of (compiler data)))),
       (''evm_version'', Text (String_js (value_of (evm_version data)))),
       (''is_optimization_enabled'',
          Text (String_js (JBool (Boolean_js (is_optimization_enabled data)))))]
      @ (if Boolean_js (is_optimization_enabled data)
         then [(''optimization_runs'', Text (String_js (optimization_runs data)))] else [])
      @ (case reduceLibrariesArray (libraries data) of
           Some r \<Rightarrow> [(''libraries'', JsonText r)] | None \<Rightarrow> [])
      @ files_part (source_files data) 0)"
  by (simp add: prepareRequestBody_def Let_def addFilesToFormData_fresh split: option.splits
           del: String_js.simps)

lemma prepare_vyper_multi_part:
  "method_value data = ''vyper-multi-part'' \<Longrightarrow>
   prepareRequestBody data = MultipartBody
     ([(''compiler_version'', Text (String_js (value_of (compiler data)))),
       (''evm_version'', Text (String_js (value_of (evm_version data))))]
      @ files_part (source_files data) 0)"
  by (simp add: prepareRequestBody_def Let_def addFilesToFormData_fresh del: String_js.simps)

lemma file_entries_append: "file_entries (a @ b) = file_entries a @ file_entries b"
  by (simp add: file_entries_def)

lemma file_entries_files_part:
  "file_entries (files_part fs i) = map (\<lambda>k. (files_key k, fs ! k)) [i..<length fs]"
  by (simp add: file_entries_def files_part_def comp_def map_concat)

lemma file_entries_simps:
  "file_entries [] = []"
  "file_entries ((k, Text t) # es) = file_entries es"
  "file_entries ((k, JsonText r) # es) = file_entries es"
  "file_entries ((k, FileValue f) # es) = (k, f) # file_entries es"
  by (simp_all add: file_entries_def)

lemmas file_entries_eval = file_entries_append file_entries_files_part file_entries_simps

lemma prepare_file_entries:
  assumes "method_value data \<in> set file_bearing_methods"
  shows "\<exists>body. prepareRequestBody data = MultipartBody body
           \<and> file_entries body
               = map (\<lambda>i. (files_key i, source_files data ! i)) [0..<length (source_files data)]"
proof -
  from assms have "method_value data = ''standard-input'' \<or> method_value data = ''sourcify''
      \<or> method_value data = ''multi-part'' \<or> method_value data = ''vyper-multi-part''"
    by (simp add: file_bearing_methods_def)
  then show ?thesis
  proof (elim disjE)
    assume 1: "method_value data = ''standard-input''"
    show ?thesis
      by (simp add: prepare_standard_input [OF 1] file_entries_eval del: String_js.simps)
  next
    assume 2: "method_value data = ''sourcify''"
    show ?thesis
      by (simp add: prepare_sourcify [OF 2] file_entries_eval split: nullable.splits)
  next
    assume 3: "method_value data = ''multi-part''"
    show ?thesis
      by (simp add: prepare_multi_part [OF 3] file_entries_eval split: option.splits
            del: String_js.simps)
  next
    assume 4: "method_value data = ''vyper-multi-part''"
    show ?thesis
      by (simp add: prepare_vyper_multi_part [OF 4] file_entries_eval del: String_js.simps)
  qed
qed

text \<open>
  C4: for a file-bearing method (standard-input, sourcify, multi-part, vyper-multi-part)
  whose source list has N files, the body is multipart and has exactly N file entries; the
  entry at position i has the key \<open>files[i]\<close> and holds the file at index i of the source
  list; the keys are pairwise different. With an empty or absent source list there is no
  file entry.
\<close>

theorem prepareRequestBody_files:
  assumes "method_value data \<in> set file_bearing_methods"
  shows "\<exists>body. prepareRequestBody data = MultipartBody body
           \<and> length (file_entries body) = length (source_files data)
           \<and> (\<forall>i < length (source_files data).
                 file_entries body ! i = (files_key i, source_files data ! i))
           \<and> distinct (map fst (file_entries body))"
proof -
  from prepare_file_entries [OF assms] obtain body where
    b: "prepareRequestBody data = MultipartBody body" and
    f: "file_entries body
          = map (\<lambda>i. (files_key i, source_files data ! i)) [0..<length (source_files data)]"
    by blast
  have "distinct (map fst (file_entries body))"
    unfolding f by (simp add: distinct_map comp_def inj_on_def files_key_inj)
  with b f show ?thesis by simp
qed

theorem prepareRequestBody_files_witness:
  "method_value ((empty_form ''sourcify'')\<lparr>sources := Some [File ''A.sol'' ''a'', File ''B.sol'' ''b'']\<rparr>)
     \<in> set file_bearing_methods
   \<and> (\<exists>body. prepareRequestBody
          ((empty_form ''sourcify'')\<lparr>sources := Some [File ''A.sol'' ''a'', File ''B.sol'' ''b'']\<rparr>)
          = MultipartBody body
        \<and> length (file_entries body) = 2
        \<and> file_entries body ! 0 = (''files[0]'', File ''A.sol'' ''a'')
        \<and> file_entries body ! 1 = (''files[1]'', File ''B.sol'' ''b''))
   \<and> (\<exists>body. prepareRequestBody (empty_form ''standard-input'') = MultipartBody body
        \<and> length (file_entries body) = 0)"
proof -
  let ?d = "(empty_form ''sourcify'')\<lparr>sources := Some [File ''A.sol'' ''a'', File ''B.sol'' ''b'']\<rparr>"
  have m: "method_value ?d \<in> set file_bearing_methods"
    and m': "method_value (empty_form ''standard-input'') \<in> set file_bearing_methods"
    by (simp_all add: empty_form_def file_bearing_methods_def)
  have s: "source_files ?d = [File ''A.sol'' ''a'', File ''B.sol'' ''b'']"
    and s': "source_files (empty_form ''standard-input'') = []"
    by (simp_all add: empty_form_def source_files_def)
  from prepareRequestBody_files [OF m] obtain body where
    b: "prepareRequestBody ?d = MultipartBody body" "length (file_entries body) = 2"
       "\<forall>i<2. file_entries body ! i = (files_key i, [File ''A.sol'' ''a'', File ''B.sol'' ''b''] ! i)"
    unfolding s by auto
  from b(3) have "file_entries body ! 0 = (''files[0]'', File ''A.sol'' ''a'')"
    and "file_entries body ! 1 = (''files[1]'', File ''B.sol'' ''b'')"
    by (simp_all add: files_key_examples)
  with b have "\<exists>body. prepareRequestBody ?d = MultipartBody body
        \<and> length (file_entries body) = 2
        \<and> file_entries body ! 0 = (''files[0]'', File ''A.sol'' ''a'')
        \<and> file_entries body ! 1 = (''files[1]'', File ''B.sol'' ''b'')"
    by blast
  moreover from prepareRequestBody_files [OF m']
  have "\<exists>body. prepareRequestBody (empty_form ''standard-input'') = MultipartBody body
        \<and> length (file_entries body) = 0"
    unfolding s' by auto
  ultimately show ?thesis using m by blast
qed

text \<open>
  C2: for the multi-part method the multipart body has an \<open>optimization_runs\<close> entry
  exactly when \<open>is_optimization_enabled\<close> is true; it has none when the flag is false (or
  absent).
\<close>

theorem prepareRequestBody_optimization_runs:
  assumes "method_value data = ''multi-part''"
  shows "\<exists>body. prepareRequestBody data = MultipartBody body
           \<and> (''optimization_runs'' \<in> set (map fst body) \<longleftrightarrow> is_optimization_enabled data = Some True)"
proof -
  have "''optimization_runs'' \<notin> fst ` set (files_part (source_files data) 0)"
    using files_part_keys files_key_neq(8) by metis
  then show ?thesis
    unfolding prepare_multi_part [OF assms]
    by (auto simp: Boolean_js_def split: option.splits)
qed

theorem prepareRequestBody_optimization_runs_witness:
  "method_value ((empty_form ''multi-part'')\<lparr>is_optimization_enabled := Some True\<rparr>) = ''multi-part''
   \<and> (\<exists>body. prepareRequestBody ((empty_form ''multi-part'')\<lparr>is_optimization_enabled := Some True\<rparr>)
          = MultipartBody body \<and> ''optimization_runs'' \<in> set (map fst body))
   \<and> (\<exists>body. prepareRequestBody ((empty_form ''multi-part'')\<lparr>is_optimization_enabled := Some False\<rparr>)
          = MultipartBody body \<and> ''optimization_runs'' \<notin> set (map fst body))"
proof -
  have m: "method_value ((empty_form ''multi-part'')\<lparr>is_optimization_enabled := Some True\<rparr>) = ''multi-part''"
    and m': "method_value ((empty_form ''multi-part'')\<lparr>is_optimization_enabled := Some False\<rparr>) = ''multi-part''"
    by (simp_all add: empty_form_def)
  from prepareRequestBody_optimization_runs [OF m]
  have "\<exists>body. prepareRequestBody ((empty_form ''multi-part'')\<lparr>is_optimization_enabled := Some True\<rparr>)
          = MultipartBody body \<and> ''optimization_runs'' \<in> set (map fst body)"
    by (simp add: empty_form_def)
  moreover from prepareRequestBody_optimization_runs [OF m']
  have "\<exists>body. prepareRequestBody ((empty_form ''multi-part'')\<lparr>is_optimization_enabled := Some False\<rparr>)
          = MultipartBody body \<and> ''optimization_runs'' \<notin> set (map fst body)"
    by (simp add: empty_form_def)
  ultimately show ?thesis using m by blast
qed

text \<open>
  C6: for a method tag that is not one of the six, the builder returns the empty plain
  mapping. The builder has no failing path: it is a total function to request bodies.
\<close>

theorem prepareRequestBody_unrecognized:
  assumes "method_value data \<notin> set SUPPORTED_VERIFICATION_METHODS"
  shows "prepareRequestBody data = PlainBody []"
  using assms by (simp add: prepareRequestBody_def SUPPORTED_VERIFICATION_METHODS_def)

theorem prepareRequestBody_unrecognized_witness:
  "method_value (empty_form ''unknown-method'') \<notin> set SUPPORTED_VERIFICATION_METHODS
   \<and> prepareRequestBody (empty_form ''unknown-method'') = PlainBody []"
proof -
  have m: "method_value (empty_form ''unknown-method'') \<notin> set SUPPORTED_VERIFICATION_METHODS"
    by (simp add: empty_form_def SUPPORTED_VERIFICATION_METHODS_def)
  from prepareRequestBody_unrecognized [OF m] m show ?thesis by simp
qed

lemma String_js_value_of: "String_js (value_of x) = undefined_or_value x"
  by (simp add: value_of_def undefined_or_value_def split: nullable.splits)

text \<open>
  C10: for standard-input, multi-part and vyper-multi-part the multipart body always has a
  \<open>compiler_version\<close> entry, and for the last two an \<open>evm_version\<close> entry as well; the
  entry holds the value of the form field, and the text \<open>undefined\<close> when the form field
  is null or absent.
\<close>

theorem prepareRequestBody_compiler_version:
  assumes "method_value data \<in> {''standard-input'', ''multi-part'', ''vyper-multi-part''}"
  shows "\<exists>body. prepareRequestBody data = MultipartBody body
           \<and> map_of body ''compiler_version'' = Some (Text (undefined_or_value (compiler data)))
           \<and> (method_value data \<noteq> ''standard-input'' \<longrightarrow>
                map_of body ''evm_version'' = Some (Text (undefined_or_value (evm_version data))))"
proof -
  from assms have "method_value data = ''standard-input''
    \<or> method_value data = ''multi-part'' \<or> method_value data = ''vyper-multi-part''"
    by simp
  then show ?thesis
  proof (elim disjE)
    assume 1: "method_value data = ''standard-input''"
    show ?thesis unfolding prepare_standard_input [OF 1] String_js_value_of using 1 by simp
  next
    assume 2: "method_value data = ''multi-part''"
    show ?thesis unfolding prepare_multi_part [OF 2] String_js_value_of by simp
  next
    assume 3: "method_value data = ''vyper-multi-part''"
    show ?thesis unfolding prepare_vyper_multi_part [OF 3] String_js_value_of by simp
  qed
qed

theorem prepareRequestBody_compiler_version_witness:
  "method_value ((empty_form ''multi-part'')\<lparr>compiler := Null\<rparr>)
     \<in> {''standard-input'', ''multi-part'', ''vyper-multi-part''}
   \<and> (\<exists>body. prepareRequestBody ((empty_form ''multi-part'')\<lparr>compiler := Null\<rparr>) = MultipartBody body
        \<and> map_of body ''compiler_version'' = Some (Text ''undefined'')
        \<and> map_of body ''evm_version'' = Some (Text ''undefined''))
   \<and> (\<exists>body. prepareRequestBody
          ((empty_form ''standard-input'')\<lparr>compiler := Present (SelectOption ''v0.8.17'' ''0.8.17'')\<rparr>)
          = MultipartBody body
        \<and> map_of body ''compiler_version'' = Some (Text ''v0.8.17''))"
proof -
  let ?d = "(empty_form ''multi-part'')\<lparr>compiler := Null\<rparr>"
  let ?e = "(empty_form ''standard-input'')\<lparr>compiler := Present (SelectOption ''v0.8.17'' ''0.8.17'')\<rparr>"
  have m: "method_value ?d \<in> {''standard-input'', ''multi-part'', ''vyper-multi-part''}"
    and m': "method_value ?e \<in> {''standard-input'', ''multi-part'', ''vyper-multi-part''}"
    by (simp_all add: empty_form_def)
  from prepareRequestBody_compiler_version [OF m]
  have "\<exists>body. prepareRequestBody ?d = MultipartBody body
        \<and> map_of body ''compiler_version'' = Some (Text ''undefined'')
        \<and> map_of body ''evm_version'' = Some (Text ''undefined'')"
    by (simp add: empty_form_def undefined_or_value_def)
  moreover from prepareRequestBody_compiler_version [OF m']
  have "\<exists>body. prepareRequestBody ?e = MultipartBody body
        \<and> map_of body ''compiler_version'' = Some (Text ''v0.8.17'')"
    by (simp add: empty_form_def undefined_or_value_def)
  ultimately show ?thesis using m by blast
qed

subsection \<open>Libraries\<close>

lemma reduceLibrariesArray_empty:
  "libraries data = None \<or> libraries data = Some [] \<Longrightarrow> reduceLibrariesArray (libraries data) = None"
  by (auto simp: reduceLibrariesArray_def)

text \<open>
  C1, as the code has it: when the libraries list is empty or absent, the multipart body of
  the multi-part method has no \<open>libraries\<close> entry at all, and the plain mapping of the
  flattened-code method has the key \<open>libraries\<close> exactly once, with the value
  \<open>undefined\<close> (never an empty mapping).
\<close>

theorem prepareRequestBody_libraries_empty:
  assumes "libraries data = None \<or> libraries data = Some []"
  shows "(method_value data = ''multi-part'' \<longrightarrow>
            (\<exists>body. prepareRequestBody data = MultipartBody body \<and> ''libraries'' \<notin> set (map fst body)))
       \<and> (method_value data = ''flattened-code'' \<longrightarrow>
            (\<exists>body. prepareRequestBody data = PlainBody body
               \<and> map_of body ''libraries'' = Some JUndefined
               \<and> length (filter (\<lambda>e. fst e = ''libraries'') body) = 1))"
proof (intro conjI impI)
  assume m: "method_value data = ''multi-part''"
  have "''libraries'' \<notin> fst ` set (files_part (source_files data) 0)"
    using files_part_keys files_key_neq(9) by metis
  then show "\<exists>body. prepareRequestBody data = MultipartBody body \<and> ''libraries'' \<notin> set (map fst body)"
    unfolding prepare_multi_part [OF m] reduceLibrariesArray_empty [OF assms]
    by auto
next
  assume m: "method_value data = ''flattened-code''"
  then show "\<exists>body. prepareRequestBody data = PlainBody body
               \<and> map_of body ''libraries'' = Some JUndefined
               \<and> length (filter (\<lambda>e. fst e = ''libraries'') body) = 1"
    by (simp add: prepareRequestBody_def reduceLibrariesArray_empty [OF assms])
qed

theorem prepareRequestBody_libraries_empty_witness:
  "(\<exists>body. prepareRequestBody ((empty_form ''multi-part'')\<lparr>libraries := Some []\<rparr>) = MultipartBody body
       \<and> ''libraries'' \<notin> set (map fst body))
   \<and> (\<exists>body. prepareRequestBody (empty_form ''flattened-code'') = PlainBody body
       \<and> map_of body ''libraries'' = Some JUndefined
       \<and> length (filter (\<lambda>e. fst e = ''libraries'') body) = 1)"
  using prepareRequestBody_libraries_empty [of "(empty_form ''multi-part'')\<lparr>libraries := Some []\<rparr>"]
        prepareRequestBody_libraries_empty [of "empty_form ''flattened-code''"]
  by (simp add: empty_form_def)

text \<open>
  Against the claim that the key is absent: with an empty libraries list the plain mapping
  of flattened-code has the key \<open>libraries\<close>, bound to \<open>undefined\<close>.
\<close>

theorem flattened_code_libraries_key_present:
  "plain_field (prepareRequestBody ((empty_form ''flattened-code'')\<lparr>libraries := Some []\<rparr>)) ''libraries''
     = Some JUndefined
   \<and> ''libraries'' \<in> set (body_keys (prepareRequestBody ((empty_form ''flattened-code'')\<lparr>libraries := Some []\<rparr>)))"
  by (simp add: plain_field_def body_keys_def prepareRequestBody_def empty_form_def reduceLibrariesArray_def)

lemma last_address_Nil: "last_address [] n = None"
  by (simp add: last_address_def)

lemma last_address_Cons:
  "last_address (l # ls) n =
     (case last_address ls n of
        Some a \<Rightarrow> Some a
      | None \<Rightarrow> if library_name l = n then Some (library_address l) else None)"
  by (auto simp: last_address_def split: list.splits)

lemma map_of_set_own: "map_of (set_own k v ps) = (map_of ps)(k \<mapsto> v)"
  by (induction ps) auto

lemma map_fst_set_own:
  "map fst (set_own k v ps) = (if k \<in> set (map fst ps) then map fst ps else map fst ps @ [k])"
  by (induction ps) (auto simp del: set_map)

lemma distinct_set_own: "distinct (map fst ps) \<Longrightarrow> distinct (map fst (set_own k v ps))"
  by (simp add: map_fst_set_own)

lemma map_of_reduce_step:
  "map_of (reduce_step acc l) n =
     (if library_name l = ''__proto__'' then map_of acc n
      else if library_name l = n then Some (library_address l) else map_of acc n)"
  by (simp add: reduce_step_def assign_property_def map_of_set_own)

lemma map_of_reduce:
  "map_of (foldl reduce_step acc ls) n =
     (if n = ''__proto__'' then map_of acc n
      else case last_address ls n of Some a \<Rightarrow> Some a | None \<Rightarrow> map_of acc n)"
proof (induction ls arbitrary: acc)
  case Nil
  then show ?case by (simp add: last_address_Nil)
next
  case (Cons l ls)
  have "map_of (foldl reduce_step acc (l # ls)) n = map_of (foldl reduce_step (reduce_step acc l) ls) n"
    by simp
  also have "\<dots> = (if n = ''__proto__'' then map_of (reduce_step acc l) n
      else case last_address ls n of Some a \<Rightarrow> Some a | None \<Rightarrow> map_of (reduce_step acc l) n)"
    by (rule Cons)
  also have "\<dots> = (if n = ''__proto__'' then map_of acc n
      else case last_address (l # ls) n of Some a \<Rightarrow> Some a | None \<Rightarrow> map_of acc n)"
    by (simp add: map_of_reduce_step last_address_Cons split: option.splits)
  finally show ?case .
qed

lemma distinct_reduce:
  "distinct (map fst acc) \<Longrightarrow> distinct (map fst (foldl reduce_step acc ls))"
  by (induction ls arbitrary: acc) (simp_all add: reduce_step_def assign_property_def distinct_set_own)

text \<open>
  The reduction of a non-empty list: one entry per name, the address of the last library
  of that name, for every name other than \<open>__proto__\<close>; no entry for \<open>__proto__\<close>.
\<close>

lemma reduceLibrariesArray_last_wins:
  assumes "ls \<noteq> []"
  shows "\<exists>r. reduceLibrariesArray (Some ls) = Some r \<and> distinct (map fst r)
           \<and> (\<forall>n. n \<noteq> ''__proto__'' \<longrightarrow> map_of r n = last_address ls n)
           \<and> map_of r ''__proto__'' = None"
proof -
  have "reduceLibrariesArray (Some ls) = Some (foldl reduce_step [] ls)"
    using assms by (simp add: reduceLibrariesArray_def reduce_step_def [abs_def])
  moreover have "distinct (map fst (foldl reduce_step [] ls))"
    by (simp add: distinct_reduce)
  moreover have "\<forall>n. n \<noteq> ''__proto__'' \<longrightarrow> map_of (foldl reduce_step [] ls) n = last_address ls n"
    by (simp add: map_of_reduce split: option.splits)
  moreover have "map_of (foldl reduce_step [] ls) ''__proto__'' = None"
    by (simp add: map_of_reduce)
  ultimately show ?thesis by simp
qed

text \<open>
  In the body: for a non-empty libraries list the mapping of flattened-code, and the one
  encoded for multi-part, is that reduction.
\<close>

lemma prepareRequestBody_libraries_last_wins:
  assumes "libraries data = Some ls" "ls \<noteq> []"
  shows "\<exists>r. distinct (map fst r)
           \<and> (\<forall>n. n \<noteq> ''__proto__'' \<longrightarrow> map_of r n = last_address ls n)
           \<and> (method_value data = ''flattened-code'' \<longrightarrow>
                 plain_field (prepareRequestBody data) ''libraries''
                   = Some (JObj (map (\<lambda>(k, a). (k, JStr a)) r)))
           \<and> (method_value data = ''multi-part'' \<longrightarrow>
                 multipart_field (prepareRequestBody data) ''libraries'' = Some (JsonText r))"
proof -
  from reduceLibrariesArray_last_wins [OF assms(2)] obtain r where
    r: "reduceLibrariesArray (Some ls) = Some r" "distinct (map fst r)"
       "\<forall>n. n \<noteq> ''__proto__'' \<longrightarrow> map_of r n = last_address ls n"
    by blast
  have "plain_field (prepareRequestBody data) ''libraries'' = Some (JObj (map (\<lambda>(k, a). (k, JStr a)) r))"
    if "method_value data = ''flattened-code''"
    using that by (simp add: plain_field_def prepareRequestBody_def assms(1) r(1))
  moreover have "multipart_field (prepareRequestBody data) ''libraries'' = Some (JsonText r)"
    if m: "method_value data = ''multi-part''"
    unfolding prepare_multi_part [OF m] by (simp add: multipart_field_def assms(1) r(1))
  ultimately show ?thesis using r(2,3) by blast
qed

text \<open>
  C9, at a list in which two libraries share the name \<open>__proto__\<close>: the last such entry has
  the address \<open>0x03\<close>, yet the mapping sent for flattened-code and the one encoded for
  multi-part hold the library \<open>Math\<close> only; the shared name has no entry.
\<close>

theorem prepareRequestBody_proto_library_dropped:
  "last_address proto_libraries ''__proto__'' = Some ''0x03''
   \<and> plain_field (prepareRequestBody ((empty_form ''flattened-code'')\<lparr>libraries := Some proto_libraries\<rparr>))
        ''libraries'' = Some (JObj [(''Math'', JStr ''0x02'')])
   \<and> multipart_field (prepareRequestBody ((empty_form ''multi-part'')\<lparr>libraries := Some proto_libraries\<rparr>))
        ''libraries'' = Some (JsonText [(''Math'', ''0x02'')])"
proof -
  have r: "reduceLibrariesArray (Some proto_libraries) = Some [(''Math'', ''0x02'')]"
    by (simp add: reduceLibrariesArray_def proto_libraries_def assign_property_def)
  have m: "method_value ((empty_form ''multi-part'')\<lparr>libraries := Some proto_libraries\<rparr>) = ''multi-part''"
    by (simp add: empty_form_def)
  have "last_address proto_libraries ''__proto__'' = Some ''0x03''"
    by (simp add: last_address_def proto_libraries_def)
  moreover have "plain_field (prepareRequestBody ((empty_form ''flattened-code'')\<lparr>libraries := Some proto_libraries\<rparr>))
        ''libraries'' = Some (JObj [(''Math'', JStr ''0x02'')])"
    by (simp add: plain_field_def prepareRequestBody_def empty_form_def r)
  moreover have "multipart_field (prepareRequestBody ((empty_form ''multi-part'')\<lparr>libraries := Some proto_libraries\<rparr>))
        ''libraries'' = Some (JsonText [(''Math'', ''0x02'')])"
    unfolding prepare_multi_part [OF m]
    by (simp add: multipart_field_def empty_form_def r Boolean_js_def)
  ultimately show ?thesis by simp
qed

section \<open>Properties of the error-field remapper\<close>

lemma get_property_field_path: "get_property API_ERROR_TO_FORM_FIELD key = field_path_of key"
  by (simp add: get_property_def API_ERROR_TO_FORM_FIELD_def field_path_of_def)

text \<open>
  C5, as the code has it: \<open>formatSocketErrors\<close> returns one pair per payload entry, in the
  payload's own key order; the message of a pair is the comma-joined concatenation of the
  entry's messages; the field path is the dictionary's for the five keys
  (contract_source_code to code, files to sources, compiler_version to compiler,
  constructor_arguments to constructor_args, name to name), the inherited member for a key
  that names a member of \<open>Object.prototype\<close>, and \<open>undefined\<close> for every other key. No key
  makes the function fail.
\<close>

theorem formatSocketErrors_entries:
  "length (formatSocketErrors errors) = length errors
   \<and> (\<forall>i < length errors.
        formatSocketErrors errors ! i
          = (field_path_of (fst (errors ! i)), ErrorOption (join '','' (snd (errors ! i)))))"
  by (simp add: formatSocketErrors_def get_property_field_path case_prod_unfold)

theorem formatSocketErrors_entries_witness:
  "formatSocketErrors [(''name'', [''is required'']), (''compiler_version'', [''too old'', ''unsupported'']),
       (''unknown'', [])] ! 1
     = (Own ''compiler'', ErrorOption ''too old,unsupported'')
   \<and> formatSocketErrors [(''name'', [''is required'']), (''compiler_version'', [''too old'', ''unsupported'']),
       (''unknown'', [])] ! 2
     = (Undefined, ErrorOption [])"
proof -
  note t = formatSocketErrors_entries
    [of "[(''name'', [''is required'']), (''compiler_version'', [''too old'', ''unsupported'']), (''unknown'', [])]"]
  from t have "\<And>i. i < 3 \<Longrightarrow> formatSocketErrors [(''name'', [''is required'']),
       (''compiler_version'', [''too old'', ''unsupported'']), (''unknown'', [])] ! i
     = (field_path_of (fst ([(''name'', [''is required'']),
       (''compiler_version'', [''too old'', ''unsupported'']), (''unknown'', [])] ! i)),
        ErrorOption (join '','' (snd ([(''name'', [''is required'']),
       (''compiler_version'', [''too old'', ''unsupported'']), (''unknown'', [])] ! i))))"
    by simp
  from this [of 1] this [of 2] show ?thesis
    by (simp add: field_path_of_def Object_prototype_members_def)
qed

text \<open>
  Against the claim that every key outside the dictionary yields an undefined field path:
  \<open>constructor\<close> is not a key of the dictionary, and its pair carries the member inherited
  from \<open>Object.prototype\<close>.
\<close>

theorem formatSocketErrors_inherited_key:
  "map_of API_ERROR_TO_FORM_FIELD ''constructor'' = None
   \<and> formatSocketErrors [(''constructor'', [''bad''])] = [(Inherited ''constructor'', ErrorOption ''bad'')]
   \<and> fst (hd (formatSocketErrors [(''constructor'', [''bad''])])) \<noteq> Undefined"
  by (simp add: formatSocketErrors_def get_property_def API_ERROR_TO_FORM_FIELD_def
        Object_prototype_members_def)

end
